theory Spec2Isabelle
  imports Complex_Main
begin

section \<open>JavaScript values used by \<open>functions/index.js\<close>\<close>

text \<open>
  The handler \<open>generateAstralChart\<close> works on JavaScript numbers and strings.
  A finite JavaScript number is a rational, so a number is modelled by its exact value
  (type \<open>real\<close>, used on rational values only). Of the three numeric operations of the
  chart mapping, \<open>%\<close> is exact on doubles and \<open>toFixed\<close> rounds the exact value of its
  receiver. The quotient \<open>x / 30\<close> is rounded to a double before \<open>Math.floor\<close> sees it. For a
  double \<open>x\<close> from 0 up to 360 the floor of the rounded quotient is the floor of the exact
  one; for \<open>x\<close> of 360 or more the rounded quotient is at least 12; for a negative \<open>x\<close> it is
  negative, except that it underflows to \<open>-0\<close> when the magnitude of \<open>x\<close> is at most
  \<open>15 * 2^-1074\<close> (the fifteen negative doubles nearest to zero; the tie at fifteen goes
  to the even neighbour, zero), and \<open>-0\<close> as an index is the index 0. This case is written
  out in \<open>signIndex\<close>; outside \<open>[0, 360)\<close> only the side of 0 and of 12 on which the index
  lies is used, and the index at 360 and at -1, where the rounding of the quotient does
  not change its floor. NaN and the infinities are outside the model. The longitudes at which the
  theorems below evaluate the code are binary fractions, which a double holds exactly.

  A JavaScript string is a sequence of UTF-16 code units. Every code unit of the source's
  string literals is below 256, so one code unit is one \<open>char\<close>; the strings of a request
  are taken from the same range.
\<close>

type_synonym number = real

definition math_floor :: "number \<Rightarrow> int" where
  \<comment> \<open>\<open>Math.floor\<close>\<close>
  "math_floor x = \<lfloor>x\<rfloor>"

definition js_trunc :: "number \<Rightarrow> int" where
  \<comment> \<open>the integer of largest magnitude not exceeding the magnitude of \<open>x\<close>, with its sign\<close>
  "js_trunc x = (if 0 \<le> x then \<lfloor>x\<rfloor> else \<lceil>x\<rceil>)"

definition js_rem :: "number \<Rightarrow> number \<Rightarrow> number" where
  \<comment> \<open>the operator \<open>%\<close> on finite numbers, divisor not zero: the result has the sign of
      the dividend\<close>
  "js_rem n d = n - d * of_int (js_trunc (n / d))"

definition array_get :: "'a list \<Rightarrow> int \<Rightarrow> 'a option" where
  \<comment> \<open>\<open>xs[i]\<close> for an integral index; \<open>None\<close> is \<open>undefined\<close>\<close>
  "array_get xs i = (if 0 \<le> i \<and> i < int (length xs) then Some (xs ! nat i) else None)"

definition digit_char :: "nat \<Rightarrow> char" where
  "digit_char d = ''0123456789'' ! d"

fun decimal :: "nat \<Rightarrow> string" where
  "decimal n = (if n < 10 then [digit_char n] else decimal (n div 10) @ [digit_char (n mod 10)])"

declare decimal.simps [simp del]

definition show_int :: "int \<Rightarrow> string" where
  \<comment> \<open>an integral number inside a template literal\<close>
  "show_int i = (if i < 0 then ''-'' @ decimal (nat (- i)) else decimal (nat i))"

definition round_hundredths :: "number \<Rightarrow> int" where
  \<comment> \<open>\<open>toFixed(2)\<close>, the integer \<open>n\<close> for which \<open>n / 100 - x\<close> is closest to zero, the
      larger one of two; \<open>x\<close> is not negative here\<close>
  "round_hundredths x = \<lfloor>x * 100 + 1 / 2\<rfloor>"

definition show_hundredths :: "nat \<Rightarrow> string" where
  \<comment> \<open>the digits of \<open>n\<close>, padded to three, with the point before the last two\<close>
  "show_hundredths n =
     (let ds = decimal n;
          m = replicate (3 - length ds) (CHR ''0'') @ ds;
          k = length m
      in take (k - 2) m @ ''.'' @ drop (k - 2) m)"

definition toFixed2 :: "number \<Rightarrow> string" where
  \<comment> \<open>\<open>x.toFixed(2)\<close> for \<open>|x| < 10^21\<close>: a negative \<open>x\<close> gives \<open>-\<close> and the digits of \<open>-x\<close>\<close>
  "toFixed2 x =
     (if x < 0 then ''-'' @ show_hundredths (nat (round_hundredths (- x)))
      else show_hundredths (nat (round_hundredths x)))"

section \<open>Chart mapping: signs and degrees\<close>

definition signNames :: "string list" where
  "signNames =
     [''Aries'', ''Tauro'', ''G'' @ [CHR 0xE9] @ ''minis'', ''C'' @ [CHR 0xE1] @ ''ncer'',
      ''Leo'', ''Virgo'', ''Libra'', ''Escorpio'', ''Sagitario'', ''Capricornio'',
      ''Acuario'', ''Piscis'']"

definition signIndex :: "number \<Rightarrow> int" where
  \<comment> \<open>\<open>Math.floor(longitude / 30)\<close>, as an index: the quotient of a negative longitude of
      magnitude at most \<open>15 * 2^-1074\<close> is \<open>-0\<close>\<close>
  "signIndex lon =
     (if lon < 0
      then if - (15 / 2 ^ 1074) \<le> lon then 0 else math_floor (lon / 30)
      else math_floor (lon / 30))"

definition signOf :: "number \<Rightarrow> string option" where
  \<comment> \<open>\<open>signNames[signIndex]\<close>\<close>
  "signOf lon = array_get signNames (signIndex lon)"

definition degreeOf :: "number \<Rightarrow> string" where
  \<comment> \<open>\<open>(longitude % 30).toFixed(2)\<close>\<close>
  "degreeOf lon = toFixed2 (js_rem lon 30)"

record entry =
  sign :: "string option"
  degree :: string
  longitude :: number

definition planetEntry :: "number \<Rightarrow> entry" where
  \<comment> \<open>the body of the loop over \<open>planets\<close>, from \<open>pos[0]\<close>; the record stored in
      \<open>planetData\<close>\<close>
  "planetEntry lon = \<lparr> sign = signOf lon, degree = degreeOf lon, longitude = lon \<rparr>"

definition houseEntry :: "number \<Rightarrow> entry" where
  \<comment> \<open>the body of the loop over the cusps, from \<open>houseCusps[i]\<close>; the record stored in
      \<open>housesData\<close>\<close>
  "houseEntry cuspLon = \<lparr> sign = signOf cuspLon, degree = degreeOf cuspLon, longitude = cuspLon \<rparr>"

section \<open>The request, the response and the collaborators\<close>

text \<open>
  The request body is the parsed JSON object \<open>req.body\<close>; a field is a string or absent
  (\<open>None\<close> is \<open>undefined\<close>). The response is what \<open>res.status(...)\<close> then \<open>send\<close> or
  \<open>json\<close> produce.
\<close>

record req_body =
  birthDate :: "string option"
  birthTime :: "string option"
  birthPlace :: "string option"
  userSex :: "string option"
  language :: "string option"

record request =
  req_method :: string
  body :: req_body

datatype reply = Empty | Message string | ChartText string

record response =
  status :: nat
  sent :: reply

definition falsy :: "string option \<Rightarrow> bool" where
  \<comment> \<open>\<open>!v\<close>: \<open>undefined\<close> and the empty string are falsy\<close>
  "falsy v = (case v of None \<Rightarrow> True | Some s \<Rightarrow> s = [])"

definition str :: "string option \<Rightarrow> string" where
  \<comment> \<open>a value inside a template literal\<close>
  "str v = (case v of None \<Rightarrow> ''undefined'' | Some s \<Rightarrow> s)"

definition orEmpty :: "string option \<Rightarrow> string" where
  \<comment> \<open>\<open>v || ''\<close>\<close>
  "orEmpty v = (case v of None \<Rightarrow> [] | Some s \<Rightarrow> s)"

fun join :: "string \<Rightarrow> string list \<Rightarrow> string" where
  "join sep [] = []"
| "join sep [x] = x"
| "join sep (x # y # ys) = x @ sep @ join sep (y # ys)"

text \<open>
  The ten bodies are the constants \<open>swisseph.SE_SUN\<close> to \<open>swisseph.SE_PLUTO\<close>; the library's
  results are typed as the handler reads them: \<open>swe_calc_ut\<close> gives \<open>pos[0]\<close>, \<open>swe_houses\<close>
  gives the array \<open>house\<close> (read at the indices 1 to 12) with \<open>ascendant\<close> and \<open>mc\<close>.
\<close>

datatype planet =
  SE_SUN | SE_MOON | SE_MERCURY | SE_VENUS | SE_MARS | SE_JUPITER | SE_SATURN | SE_URANUS
| SE_NEPTUNE | SE_PLUTO

definition planets :: "planet list" where
  "planets =
     [SE_SUN, SE_MOON, SE_MERCURY, SE_VENUS, SE_MARS, SE_JUPITER, SE_SATURN, SE_URANUS,
      SE_NEPTUNE, SE_PLUTO]"

fun planetNames :: "planet \<Rightarrow> string" where
  "planetNames SE_SUN = ''Sol''"
| "planetNames SE_MOON = ''Luna''"
| "planetNames SE_MERCURY = ''Mercurio''"
| "planetNames SE_VENUS = ''Venus''"
| "planetNames SE_MARS = ''Marte''"
| "planetNames SE_JUPITER = ''J'' @ [CHR 0xFA] @ ''piter''"
| "planetNames SE_SATURN = ''Saturno''"
| "planetNames SE_URANUS = ''Urano''"
| "planetNames SE_NEPTUNE = ''Neptuno''"
| "planetNames SE_PLUTO = ''Plut'' @ [CHR 0xF3] @ ''n''"

record houses =
  house :: "nat \<Rightarrow> number"
  ascendant :: number
  mc :: number

text \<open>
  A valid \<open>Date\<close> object, by the getters the runtime offers; \<open>getTime\<close> is in milliseconds.
  The handler never calls \<open>getMinutes\<close>.
\<close>

record jsdate =
  getTime :: int
  getFullYear :: int
  getMonth :: int
  getDate :: int
  getHours :: int
  getMinutes :: int

text \<open>
  What \<open>await fetch(url)\<close> followed by \<open>response.json()\<close> comes to: a failure of the
  transport or of the decoding (with the error's message), a response that is not \<open>ok\<close>
  (with \<open>status\<close> and \<open>statusText\<close>), or the decoded body.
\<close>

datatype 'a fetched = FetchFails string | HttpStatus int string | Body 'a

record timezoneData =
  tzStatus :: string
  timeZoneId :: string
  dstOffset :: number
  rawOffset :: number
  errorMessage :: "string option"

text \<open>
  Everything outside the handler: the two configuration keys, the runtime (\<open>new Date\<close> of a
  string, \<open>None\<close> for an invalid date; the decimal rendering of a number), the two web
  services, the ephemeris library and the text model. A library call that throws is
  \<open>Inl\<close> of the error's message. The string given to \<open>new Date\<close> carries no zone, so the
  runtime reads it in the local time of its host and decides by its own parser which
  strings are dates. The constant arguments of the library calls (\<open>SEFLG_SWIEPH\<close>, the house
  system \<open>P\<close>, the model name) are left out, and so are the URLs, which are determined by
  the place, the coordinates, the timestamp and the key.
\<close>

record env =
  gemini_api_key :: bool
  google_maps_api_key :: bool
  newDate :: "string \<Rightarrow> jsdate option"
  numberToString :: "number \<Rightarrow> string"
  nominatim :: "string \<Rightarrow> (number \<times> number) list fetched"
  googleTimeZone :: "number \<Rightarrow> number \<Rightarrow> int \<Rightarrow> timezoneData fetched"
  swe_julday :: "int \<Rightarrow> int \<Rightarrow> int \<Rightarrow> number \<Rightarrow> string + number"
  swe_calc_ut :: "number \<Rightarrow> planet \<Rightarrow> string + number"
  swe_houses :: "number \<Rightarrow> number \<Rightarrow> number \<Rightarrow> string + houses"
  swe_house_pos :: "(nat \<Rightarrow> number) \<Rightarrow> number \<Rightarrow> number \<Rightarrow> string + number"
  generateContent :: "string \<Rightarrow> string + string"

text \<open>The calls that leave the handler, in the order they are made.\<close>

datatype call =
  Geocoding string
| TimeZoneLookup number number int
| Julday int int int number
| CalcUt number planet
| Houses number number number
| HousePos "number list" number number
| GenerateContent string

section \<open>The prompt\<close>

record astro_data =
  fa_birthDate :: string
  fa_birthTime :: string
  fa_birthPlace :: string
  fa_userSex :: string
  fa_timezoneId :: string
  fa_rawOffsetHours :: number
  fa_latitude :: number
  fa_longitude :: number
  fa_sunSign :: "string option"
  fa_moonSign :: "string option"
  fa_ascendant :: "string option"
  fa_mc :: "string option"
  fa_planetsPositions :: string
  fa_housesCusps :: string
  fa_keyAspects :: string

text \<open>
  The template literal \<open>textPrompt\<close>, cut into its consecutive parts; the parts are
  separated by an empty line.
\<close>

definition chartDataBlock :: "(number \<Rightarrow> string) \<Rightarrow> astro_data \<Rightarrow> string" where
  \<comment> \<open>the template from its first line to \<open>Aspectos Clave\<close>: the birth data and the computed chart\<close>
  "chartDataBlock num fa =
      ''Genera una interpretaci'' @ [CHR 0xF3]
      @ ''n completa de la carta astral basada en los siguientes datos de ''
      @ ''nacimiento:'' @ ''\<newline>'' @ ''Fecha de Nacimiento: ''
      @ fa_birthDate fa
      @ ''\<newline>'' @ ''Hora de Nacimiento: ''
      @ fa_birthTime fa
      @ '' (Hora Local)'' @ ''\<newline>'' @ ''Lugar de Nacimiento: ''
      @ fa_birthPlace fa
      @ ''\<newline>'' @ ''Sexo del Usuario: ''
      @ fa_userSex fa
      @ ''\<newline>'' @ ''Latitud: ''
      @ num (fa_latitude fa)
      @ ''\<newline>'' @ ''Longitud: ''
      @ num (fa_longitude fa)
      @ ''\<newline>'' @ ''Zona Horaria Identificada: ''
      @ fa_timezoneId fa
      @ '' (Offset GMT: ''
      @ num (fa_rawOffsetHours fa)
      @ '' horas)'' @ ''\<newline>'' @ ''\<newline>'' @ ''Y los siguientes datos astrol''
      @ [CHR 0xF3] @ ''gicos precisos calculados:'' @ ''\<newline>'' @ ''Signo Solar: ''
      @ str (fa_sunSign fa)
      @ ''\<newline>'' @ ''Signo Lunar: ''
      @ str (fa_moonSign fa)
      @ ''\<newline>'' @ ''Ascendente: ''
      @ str (fa_ascendant fa)
      @ ''\<newline>'' @ ''Medio Cielo: ''
      @ str (fa_mc fa)
      @ ''\<newline>'' @ ''Posiciones de Planetas: ''
      @ fa_planetsPositions fa
      @ ''.'' @ ''\<newline>'' @ ''C'' @ [CHR 0xFA] @ ''spides de Casas: ''
      @ fa_housesCusps fa
      @ ''.'' @ ''\<newline>'' @ ''Aspectos Clave: ''
      @ fa_keyAspects fa
      @ ''\<newline>''"

definition toneDirective :: string where
  "toneDirective =
      ''La interpretaci'' @ [CHR 0xF3]
      @ ''n debe ser altamente profesional, profunda, narrativa y psicol'' @ [CHR 0xF3]
      @ ''gicamente atractiva. Utiliza principios de Neuro-Linguistic ''
      @ ''Programming (PNL) para inspirar, captar la atenci'' @ [CHR 0xF3]
      @ ''n y motivar el crecimiento personal, fomentando una sensaci'' @ [CHR 0xF3]
      @ ''n agradable, mental y psicol'' @ [CHR 0xF3]
      @ ''gicamente enriquecedora para el lector. El tono debe ser directo (''
      @ [CHR 0x22] @ ''t'' @ [CHR 0xFA] @ [CHR 0x22] @ ''). La interpretaci''
      @ [CHR 0xF3] @ ''n debe ser sensible al g'' @ [CHR 0xE9] @ ''nero del usuario.''"

definition structureDirective :: string where
  "structureDirective =
      ''La interpretaci'' @ [CHR 0xF3]
      @ ''n debe estructurarse con las siguientes 28 secciones exactas y en ''
      @ ''este orden. '' @ [CHR 0xA1] @ ''No incluyas ninguna secci'' @ [CHR 0xF3]
      @ ''n o menci'' @ [CHR 0xF3] @ ''n a Eneagrama, Chakras, pareja ideal o im''
      @ [CHR 0xE1] @ ''genes!''"

definition sectionLines :: "string list" where
  "sectionLines =
     [''1. Los Componentes Fundamentales de tu Carta Astral'',
      ''2. La Interpretaci'' @ [CHR 0xF3]
        @ ''n de tu Carta Astral: Un Viaje Personal'',
      ''3. Beneficios de Conocer tu Carta Astral: Tu Poder Interior'',
      ''4. An'' @ [CHR 0xE1] @ ''lisis Completo, Profundo y Detallado de tu Mapa C''
        @ [CHR 0xF3] @ ''smico'',
      ''5. S'' @ [CHR 0xED] @ ''ntesis General de tu Perfil Astrol'' @ [CHR 0xF3]
        @ ''gico: Tu Esencia '' @ [CHR 0xDA] @ ''nica'',
      ''6. La Din'' @ [CHR 0xE1] @ ''mica de la Armon'' @ [CHR 0xED]
        @ ''a: Integrando tus Luces'',
      ''7. Un Enfoque Positivo para la Pasi'' @ [CHR 0xF3] @ ''n y la Vida: Tu Energ''
        @ [CHR 0xED] @ ''a Radiante'',
      ''8. La Sexualidad: Un Viaje de Conexi'' @ [CHR 0xF3] @ ''n Profunda y Placer'',
      ''9. La Relaci'' @ [CHR 0xF3] @ ''n Contigo Mismo'',
      ''10. El Aspecto Social: Tu Brillo en la Conexi'' @ [CHR 0xF3] @ ''n Humana'',
      ''11. El Aspecto Laboral: Tu Prop'' @ [CHR 0xF3] @ ''sito en Acci'' @ [CHR 0xF3]
        @ ''n'',
      ''12. El Aspecto Art'' @ [CHR 0xED] @ ''stico: La Danza de tu Creatividad'',
      ''13. El Ego: Tu Guardi'' @ [CHR 0xE1] @ ''n y Maestro Interior'',
      ''14. El Verdadero Yo: La Voz de tu Alma'',
      ''15. Sanar la Herida (Quir'' @ [CHR 0xF3]
        @ ''n) Abrazando tu Poder de Transformaci'' @ [CHR 0xF3] @ ''n'',
      ''16. El Viaje del Alma: Tu Sendero Evolutivo'',
      ''17. El Viaje del Alma por Edad y A'' @ [CHR 0xF1]
        @ ''os en el Mundo: Tu Crecimiento Constante'',
      ''18. El Prop'' @ [CHR 0xF3] @ ''sito de Vida y del Mundo: Tu Huella C''
        @ [CHR 0xF3] @ ''smica'',
      ''19. El Amor en la Carta Astral: Un Universo de Conexiones'',
      ''20. La Salud: Tu Templo Sagrado y Vibrante'',
      ''21. El Aspecto Deportivo y el Ejercicio: La Alegr'' @ [CHR 0xED]
        @ ''a del Movimiento'',
      ''22. El Dinero, Finanzas y Emprendimiento: Fluyendo con la '' @ ''Abundancia'',
      ''23. Espiritualidad y Conexi'' @ [CHR 0xF3]
        @ ''n Divina: Tu Puente con lo Infinito'',
      ''24. Proyecci'' @ [CHR 0xF3] @ ''n Futura y Conexi'' @ [CHR 0xF3]
        @ ''n Angelical: Tu Destino Luminoso'',
      ''25. Lujos Materiales, Turismo, Hogar y Estilo Personal: ''
        @ ''Celebrando la Vida'',
      ''26. Vidas Pasadas: Los Ecos de tu Sabidur'' @ [CHR 0xED] @ ''a Ancestral'',
      ''27. T'' @ [CHR 0xE9]
        @ ''cnicas para Sanar la Herida: Herramientas para tu Florecimiento'',
      ''28. Trascender la Furia del Ego a la Paz del Amor: Un Camino de ''
        @ ''Maestr'' @ [CHR 0xED] @ ''a'']"

definition techniquesDirective :: string where
  "techniquesDirective =
      ''Proporciona herramientas y t'' @ [CHR 0xE9] @ ''cnicas pr'' @ [CHR 0xE1]
      @ ''cticas para las secciones 27 y 28.''"

definition languageDirective :: "string option \<Rightarrow> string" where
  "languageDirective lang =
      ''Responde enteramente en ''
      @ (if lang = Some ''es'' then ''Spanish'' else ''English'')
      @ ''. El formato final debe ser Markdown.''"

definition textPrompt :: "(number \<Rightarrow> string) \<Rightarrow> astro_data \<Rightarrow> string option \<Rightarrow> string" where
  "textPrompt num fa lang =
     chartDataBlock num fa @ ''\<newline>''
     @ toneDirective @ ''\<newline>\<newline>''
     @ structureDirective @ ''\<newline>\<newline>''
     @ join ''\<newline>'' sectionLines @ ''\<newline>\<newline>''
     @ techniquesDirective @ ''\<newline>\<newline>''
     @ languageDirective lang"

section \<open>The handler\<close>

text \<open>
  The handler is one function; its body is cut here at the numbered steps of the source,
  written innermost first: each step ends by calling the next one. A step gives the calls
  it made and either the message of a thrown error (\<open>Inl\<close>, caught by the handler's outer
  \<open>catch\<close>) or the response it sent. The CORS headers, set on every response, and the
  console output are not part of the model.
\<close>

subsection \<open>Step 4: the text model\<close>

definition narrativeStage :: "env \<Rightarrow> string \<Rightarrow> call list \<times> (string + response)" where
  "narrativeStage env prompt =
     ([GenerateContent prompt],
      case generateContent env prompt of
        Inl m \<Rightarrow> Inl m
      | Inr chartText \<Rightarrow> Inr \<lparr> status = 200, sent = ChartText chartText \<rparr>)"

subsection \<open>Step 3: the chart\<close>

definition julianHour :: "jsdate \<Rightarrow> number \<Rightarrow> number" where
  \<comment> \<open>the fourth argument of \<open>swe_julday\<close>\<close>
  "julianHour localDate rawOffsetSeconds = of_int (getHours localDate) + rawOffsetSeconds / 3600"

text \<open>
  The loop over \<open>planets\<close> fills the object \<open>planetData\<close>; its keys are the ten distinct
  names, so the object is the list of its entries in insertion order.
\<close>

fun calcPlanets :: "env \<Rightarrow> number \<Rightarrow> planet list \<Rightarrow> call list \<times> (string + (string \<times> entry) list)" where
  "calcPlanets env julianDay [] = ([], Inr [])"
| "calcPlanets env julianDay (p # ps) =
     (case swe_calc_ut env julianDay p of
        Inl m \<Rightarrow> ([CalcUt julianDay p], Inl m)
      | Inr lon \<Rightarrow>
          (case calcPlanets env julianDay ps of
             (cs, Inl m) \<Rightarrow> (CalcUt julianDay p # cs, Inl m)
           | (cs, Inr planetData) \<Rightarrow>
               (CalcUt julianDay p # cs, Inr ((planetNames p, planetEntry lon) # planetData))))"

definition housesData :: "(nat \<Rightarrow> number) \<Rightarrow> (string \<times> entry) list" where
  "housesData houseCusps =
     map (\<lambda>i. (''Casa '' @ show_int (int i), houseEntry (houseCusps i))) [1..<13]"

fun planetsPrompt ::
  "env \<Rightarrow> (nat \<Rightarrow> number) \<Rightarrow> number \<Rightarrow> (string \<times> entry) list \<Rightarrow> call list \<times> (string + string list)" where
  "planetsPrompt env houseCusps lat [] = ([], Inr [])"
| "planetsPrompt env houseCusps lat ((planetName, p) # rest) =
     (let c = HousePos (map houseCusps [0..<13]) lat (longitude p)
      in case swe_house_pos env houseCusps lat (longitude p) of
           Inl m \<Rightarrow> ([c], Inl m)
         | Inr housePos \<Rightarrow>
             (case planetsPrompt env houseCusps lat rest of
                (cs, Inl m) \<Rightarrow> (c # cs, Inl m)
              | (cs, Inr ls) \<Rightarrow>
                  (c # cs,
                   Inr ((planetName @ '' en '' @ str (sign p) @ '' a '' @ degree p
                         @ [CHR 0xB0] @ '' en Casa '' @ show_int (math_floor housePos)) # ls))))"

definition housesCuspsPrompt :: "(string \<times> entry) list \<Rightarrow> string" where
  "housesCuspsPrompt hdata =
     join '', '' (map (\<lambda>(houseName, h). houseName @ '' en '' @ str (sign h) @ '' a '' @ degree h
                                         @ [CHR 0xB0]) hdata)"

definition keyAspects :: string where
  "keyAspects =
      (''Aspectos derivados de las posiciones planetarias (interpretaci'' @ [CHR 0xF3]
      @ ''n de Gemini)'')"

definition finalAstroData ::
  "req_body \<Rightarrow> string \<Rightarrow> number \<Rightarrow> number \<Rightarrow> number \<Rightarrow> entry \<Rightarrow> entry \<Rightarrow> houses \<Rightarrow> string list
     \<Rightarrow> astro_data" where
  \<comment> \<open>the object \<open>finalAstroData\<close>, from the entries of \<open>Sol\<close> and \<open>Luna\<close>, the result of
      \<open>swe_houses\<close> and the planets' parts of the prompt\<close>
  "finalAstroData b timezoneId rawOffsetSeconds lat lng sol luna ascmc ls =
     \<lparr> fa_birthDate = str (birthDate b),
       fa_birthTime = str (birthTime b),
       fa_birthPlace = str (birthPlace b),
       fa_userSex = str (userSex b),
       fa_timezoneId = timezoneId,
       fa_rawOffsetHours = rawOffsetSeconds / 3600,
       fa_latitude = lat,
       fa_longitude = lng,
       fa_sunSign = signOf (longitude sol),
       fa_moonSign = signOf (longitude luna),
       fa_ascendant = signOf (ascendant ascmc),
       fa_mc = signOf (mc ascmc),
       fa_planetsPositions = join '', '' ls,
       fa_housesCusps = housesCuspsPrompt (housesData (house ascmc)),
       fa_keyAspects = keyAspects \<rparr>"

definition astroStage ::
  "env \<Rightarrow> req_body \<Rightarrow> number \<Rightarrow> number \<Rightarrow> string \<Rightarrow> number \<Rightarrow> jsdate \<Rightarrow> call list \<times> (string + response)" where
  "astroStage env b lat lng timezoneId rawOffsetSeconds localDate =
     (let y = getFullYear localDate; mo = getMonth localDate + 1; d = getDate localDate;
          h = julianHour localDate rawOffsetSeconds
      in case swe_julday env y mo d h of
           Inl m \<Rightarrow> ([Julday y mo d h], Inl m)
         | Inr julianDay \<Rightarrow>
       (case calcPlanets env julianDay planets of
           (cs1, Inl m) \<Rightarrow> (Julday y mo d h # cs1, Inl m)
         | (cs1, Inr planetData) \<Rightarrow>
       (case swe_houses env julianDay lat lng of
           Inl m \<Rightarrow> (Julday y mo d h # cs1 @ [Houses julianDay lat lng], Inl m)
         | Inr ascmc \<Rightarrow>
       (let cs2 = Julday y mo d h # cs1 @ [Houses julianDay lat lng]
        in case (map_of planetData ''Sol'', map_of planetData ''Luna'') of
             (Some sol, Some luna) \<Rightarrow>
               (case planetsPrompt env (house ascmc) lat planetData of
                  (cs3, Inl m) \<Rightarrow> (cs2 @ cs3, Inl m)
                | (cs3, Inr ls) \<Rightarrow>
                    (case narrativeStage env
                            (textPrompt (numberToString env)
                               (finalAstroData b timezoneId rawOffsetSeconds lat lng sol luna ascmc ls)
                               (language b)) of
                       (cs4, r) \<Rightarrow> (cs2 @ cs3 @ cs4, r)))
           | _ \<Rightarrow> (cs2, Inl (''Cannot read properties of undefined (reading '' @ [CHR 0x27]
                                  @ ''longitude'' @ [CHR 0x27] @ '')''))))))"

subsection \<open>Step 2: the time zone\<close>

definition invalidDateMessage :: string where
  "invalidDateMessage = ''Formato de fecha u hora de nacimiento inv'' @ [CHR 0xE1] @ ''lido.''"

definition timestampOf :: "jsdate \<Rightarrow> int" where
  \<comment> \<open>\<open>Math.floor(localDate.getTime() / 1000)\<close>\<close>
  "timestampOf localDate = math_floor (of_int (getTime localDate) / 1000)"

definition timezoneStage :: "env \<Rightarrow> req_body \<Rightarrow> number \<Rightarrow> number \<Rightarrow> call list \<times> (string + response)" where
  "timezoneStage env b lat lng =
     (case newDate env (str (birthDate b) @ ''T'' @ str (birthTime b) @ '':00'') of
        None \<Rightarrow>
          ([], Inr \<lparr> status = 400, sent = Message invalidDateMessage \<rparr>)
      | Some localDate \<Rightarrow>
          (let timestamp = timestampOf localDate;
               c = TimeZoneLookup lat lng timestamp
           in case googleTimeZone env lat lng timestamp of
                FetchFails m \<Rightarrow>
                  ([c], Inr \<lparr> status = 500,
                              sent = Message (''Error al conectar con el servicio de zona horaria de Google. ''
                                  @ ''Detalles: ''
                                @ m) \<rparr>)
              | HttpStatus st txt \<Rightarrow>
                  ([c], Inr \<lparr> status = 500,
                              sent = Message (''Error al conectar con el servicio de zona horaria de Google. ''
                                  @ ''Detalles: ''
                                @ ''Error HTTP de Google Time Zone API: '' @ show_int st @ '' '' @ txt) \<rparr>)
              | Body tz \<Rightarrow>
                  if tzStatus tz = ''OK'' then
                    (case astroStage env b lat lng (timeZoneId tz) (dstOffset tz + rawOffset tz)
                            localDate of
                       (cs, r) \<Rightarrow> (c # cs, r))
                  else
                    ([c], Inr \<lparr> status = 404,
                                sent = Message (''No se pudo determinar la zona horaria precisa para el lugar y la ''
                                  @ ''fecha proporcionados. ''
                                  @ orEmpty (errorMessage tz)) \<rparr>)))"

subsection \<open>Step 1: the coordinates of the place\<close>

definition geocodeStage :: "env \<Rightarrow> req_body \<Rightarrow> call list \<times> (string + response)" where
  "geocodeStage env b =
     (let c = Geocoding (str (birthPlace b))
      in case nominatim env (str (birthPlace b)) of
           FetchFails m \<Rightarrow>
             ([c], Inr \<lparr> status = 500,
                         sent = Message (''Error al conectar con el servicio de geocodificaci''
                                  @ [CHR 0xF3] @ ''n. Detalles: ''
                           @ m) \<rparr>)
         | HttpStatus st txt \<Rightarrow>
             ([c], Inr \<lparr> status = 500,
                         sent = Message (''Error al conectar con el servicio de geocodificaci''
                                  @ [CHR 0xF3] @ ''n. Detalles: ''
                           @ ''Error HTTP de Nominatim: '' @ show_int st @ '' '' @ txt) \<rparr>)
         | Body nominatimData \<Rightarrow>
             (case nominatimData of
                [] \<Rightarrow>
                  ([c], Inr \<lparr> status = 404,
                              sent = Message (''No se pudo encontrar las coordenadas para el lugar de nacimiento ''
                                  @ ''proporcionado. Intenta con una ubicaci'' @ [CHR 0xF3]
                                  @ ''n m'' @ [CHR 0xE1] @ ''s espec'' @ [CHR 0xED] @ ''fica.'') \<rparr>)
              | (lat, lng) # _ \<Rightarrow>
                  (case timezoneStage env b lat lng of (cs, r) \<Rightarrow> (c # cs, r))))"

subsection \<open>The body of \<open>try\<close> and the handler\<close>

definition incomplete :: "req_body \<Rightarrow> bool" where
  \<comment> \<open>\<open>!birthDate || !birthTime || !birthPlace || !userSex || !language\<close>\<close>
  "incomplete b \<longleftrightarrow>
     falsy (birthDate b) \<or> falsy (birthTime b) \<or> falsy (birthPlace b) \<or> falsy (userSex b)
     \<or> falsy (language b)"

definition incompleteMessage :: string where
  "incompleteMessage = ''Datos de nacimiento o sexo incompletos.''"

definition pipeline :: "env \<Rightarrow> req_body \<Rightarrow> call list \<times> (string + response)" where
  "pipeline env b =
     (if incomplete b then
        ([], Inr \<lparr> status = 400, sent = Message incompleteMessage \<rparr>)
      else geocodeStage env b)"

definition generateAstralChart :: "env \<Rightarrow> request \<Rightarrow> response \<times> call list" where
  "generateAstralChart env req =
     (if req_method req = ''OPTIONS'' then (\<lparr> status = 200, sent = Empty \<rparr>, [])
      else if req_method req \<noteq> ''POST'' then
        (\<lparr> status = 405,
           sent = Message (''M'' @ [CHR 0xE9]
                           @ ''todo no permitido. Solo se aceptan solicitudes POST.'') \<rparr>, [])
      else if \<not> gemini_api_key env then
        (\<lparr> status = 500,
           sent = Message (''Error interno del servidor: Clave API GEMINI_API_KEY no ''
                           @ ''configurada en Firebase Functions.'') \<rparr>, [])
      else if \<not> google_maps_api_key env then
        (\<lparr> status = 500,
           sent = Message (''Error interno del servidor: Clave API GOOGLE_MAPS_API_KEY no ''
                           @ ''configurada en Firebase Functions.'') \<rparr>, [])
      else
        (case pipeline env (body req) of
           (cs, Inr r) \<Rightarrow> (r, cs)
         | (cs, Inl m) \<Rightarrow>
             (\<lparr> status = 500,
                sent = Message (''Error interno del servidor al procesar la solicitud de la carta ''
                                @ ''astral. Por favor, int'' @ [CHR 0xE9] @ ''ntalo de nuevo m''
                                @ [CHR 0xE1] @ ''s tarde o contacta al soporte. Detalles t''
                                @ [CHR 0xE9] @ ''cnicos: ''
                  @ m) \<rparr>, cs)))"

section \<open>A concrete environment\<close>

text \<open>
  The example of the specification: a birth on 1990-03-21 in Paris, the geocoder giving
  48.8566 and 2.3522, the time zone service giving Europe/Paris with a total offset of
  3600 seconds, the Sun at 0.5 degrees. The ephemeris of the example has equal houses
  from 0 degrees. The two runtimes are given at the date strings of the examples only, as
  a host in UTC and a host five hours behind UTC read them; no theorem rests on their
  value at another string.
\<close>

definition utcDate :: "string \<Rightarrow> jsdate option" where
  \<comment> \<open>\<open>new Date\<close> on a host in UTC that runs V8, at the date strings of the examples; V8 takes
      every day from 01 to 31 in any month and rolls it over, so the 30th of February is
      the 2nd of March\<close>
  "utcDate s =
     (if s = ''1990-03-21T12:00:00'' then
        Some \<lparr> getTime = 638020800000, getFullYear = 1990, getMonth = 2, getDate = 21,
               getHours = 12, getMinutes = 0 \<rparr>
      else if s = ''1990-03-21T12:30:00'' then
        Some \<lparr> getTime = 638022600000, getFullYear = 1990, getMonth = 2, getDate = 21,
               getHours = 12, getMinutes = 30 \<rparr>
      else if s = ''1990-02-30T12:00:00'' then
        Some \<lparr> getTime = 636379200000, getFullYear = 1990, getMonth = 2, getDate = 2,
               getHours = 12, getMinutes = 0 \<rparr>
      else None)"

definition utcMinus5Date :: "string \<Rightarrow> jsdate option" where
  "utcMinus5Date s =
     (if s = ''1990-03-21T12:00:00'' then
        Some \<lparr> getTime = 638038800000, getFullYear = 1990, getMonth = 2, getDate = 21,
               getHours = 12, getMinutes = 0 \<rparr>
      else None)"

definition exampleNumber :: "number \<Rightarrow> string" where
  "exampleNumber x =
     (if x = 488566 / 10000 then ''48.8566''
      else if x = 23522 / 10000 then ''2.3522''
      else show_int \<lfloor>x\<rfloor>)"

fun exampleLongitude :: "planet \<Rightarrow> number" where
  "exampleLongitude SE_SUN = 1 / 2"
| "exampleLongitude SE_MOON = 9525 / 100"
| "exampleLongitude SE_MERCURY = 340125 / 1000"
| "exampleLongitude SE_VENUS = 30"
| "exampleLongitude SE_MARS = 7679 / 256"
| "exampleLongitude SE_JUPITER = 100"
| "exampleLongitude SE_SATURN = 2905 / 10"
| "exampleLongitude SE_URANUS = 27825 / 100"
| "exampleLongitude SE_NEPTUNE = 283875 / 1000"
| "exampleLongitude SE_PLUTO = 22775 / 100"

definition exampleEnv :: env where
  "exampleEnv =
     \<lparr> gemini_api_key = True,
       google_maps_api_key = True,
       newDate = utcDate,
       numberToString = exampleNumber,
       nominatim = (\<lambda>place. if place = ''Paris, France'' then Body [(488566 / 10000, 23522 / 10000)]
                            else Body []),
       googleTimeZone = (\<lambda>lat lng timestamp.
          Body \<lparr> tzStatus = ''OK'', timeZoneId = ''Europe/Paris'', dstOffset = 0,
                 rawOffset = 3600, errorMessage = None \<rparr>),
       swe_julday = (\<lambda>y mo d h. Inr (2447972 + h / 24)),
       swe_calc_ut = (\<lambda>julianDay p. Inr (exampleLongitude p)),
       swe_houses = (\<lambda>julianDay lat lng.
          Inr \<lparr> house = (\<lambda>i. 30 * (of_nat i - 1)), ascendant = 0, mc = 270 \<rparr>),
       swe_house_pos = (\<lambda>houseCusps lat lon. Inr (lon / 30 + 1)),
       generateContent = (\<lambda>prompt. Inr ''# Carta Astral'') \<rparr>"

definition exampleBody :: req_body where
  "exampleBody =
     \<lparr> birthDate = Some ''1990-03-21'', birthTime = Some ''12:00'',
       birthPlace = Some ''Paris, France'', userSex = Some ''female'', language = Some ''es'' \<rparr>"

definition exampleRequest :: request where
  "exampleRequest = \<lparr> req_method = ''POST'', body = exampleBody \<rparr>"

section \<open>Properties of the sign and degree derivation\<close>

lemma js_rem_30_nonneg:
  assumes "0 \<le> L"
  shows "js_rem L 30 = L - 30 * of_int \<lfloor>L / 30\<rfloor>"
  using assms by (simp add: js_rem_def js_trunc_def)

lemma floor_mod_30_bounds:
  fixes L :: real
  shows "0 \<le> L - 30 * of_int \<lfloor>L / 30\<rfloor>" and "L - 30 * of_int \<lfloor>L / 30\<rfloor> < 30"
proof -
  have "of_int \<lfloor>L / 30\<rfloor> \<le> L / 30" by (rule of_int_floor_le)
  then show "0 \<le> L - 30 * of_int \<lfloor>L / 30\<rfloor>" by simp
  have "L / 30 < of_int \<lfloor>L / 30\<rfloor> + 1" by linarith
  then show "L - 30 * of_int \<lfloor>L / 30\<rfloor> < 30" by linarith
qed

lemma signIndex_nonneg:
  assumes "0 \<le> L"
  shows "signIndex L = \<lfloor>L / 30\<rfloor>"
  using assms by (simp add: signIndex_def math_floor_def)

lemma signIndex_range:
  assumes "0 \<le> L" and "L < 360"
  shows "0 \<le> signIndex L" and "signIndex L < 12"
proof -
  have "0 \<le> L / 30" using assms by simp
  then show "0 \<le> signIndex L" by (simp add: signIndex_nonneg [OF assms(1)])
  have "L / 30 < 12" using assms by simp
  then show "signIndex L < 12" by (simp add: signIndex_nonneg [OF assms(1)] floor_less_iff)
qed






lemma length_signNames: "length signNames = 12"
  by (simp add: signNames_def)


lemma round_hundredths_close:
  "\<bar>of_int (round_hundredths x) / 100 - x\<bar> \<le> 1 / 200"
proof -
  let ?n = "round_hundredths x"
  have lo: "of_int ?n \<le> x * 100 + 1 / 2"
    unfolding round_hundredths_def by (rule of_int_floor_le)
  have hi: "x * 100 + 1 / 2 < of_int ?n + 1"
    unfolding round_hundredths_def by linarith
  from lo hi show ?thesis by linarith
qed

lemma round_hundredths_range:
  assumes "0 \<le> x" and "x < 30"
  shows "0 \<le> round_hundredths x" and "round_hundredths x \<le> 3000"
proof -
  have "0 \<le> x * 100 + 1 / 2" using assms by simp
  then show "0 \<le> round_hundredths x" by (simp add: round_hundredths_def)
  have "x * 100 + 1 / 2 < 3001" using assms by simp
  then have "round_hundredths x < 3001" by (simp add: round_hundredths_def floor_less_iff)
  then show "round_hundredths x \<le> 3000" by simp
qed


lemma sign_of_entries:
  assumes "0 \<le> L" and "L < 360"
  shows "signOf L = Some (signNames ! nat \<lfloor>L / 30\<rfloor>)"
  using signIndex_range [OF assms] signIndex_nonneg [OF assms(1)]
  by (simp add: signOf_def array_get_def length_signNames)

subsection \<open>Sign and degree of a longitude in range\<close>

text \<open>
  C1, as the code has it. For a longitude \<open>L\<close> with \<open>0 \<le> L < 360\<close> the sign of a body and of
  a cusp is the entry of the twelve-entry table at \<open>floor(L / 30)\<close>, an index from 0 to 11;
  \<open>L % 30\<close> is \<open>L mod 30\<close> and lies in \<open>[0, 30)\<close>; the degree of the record is that value
  rounded to hundredths by \<open>toFixed(2)\<close>: a decimal string whose value lies between 0.00 and
  30.00, differs from \<open>L mod 30\<close> by at most 0.005 and is 30.00 exactly when \<open>L mod 30\<close> is at
  least 29.995. At 30 the sign is Tauro and the degree is 0.00.
\<close>

theorem C1_sign_and_rounded_degree:
  assumes "0 \<le> L" and "L < 360"
  shows "signIndex L = \<lfloor>L / 30\<rfloor> \<and> 0 \<le> signIndex L \<and> signIndex L < 12
       \<and> sign (planetEntry L) = Some (signNames ! nat \<lfloor>L / 30\<rfloor>)
       \<and> sign (houseEntry L) = Some (signNames ! nat \<lfloor>L / 30\<rfloor>)
       \<and> js_rem L 30 = L - 30 * of_int \<lfloor>L / 30\<rfloor>
       \<and> 0 \<le> js_rem L 30 \<and> js_rem L 30 < 30
       \<and> degree (planetEntry L) = show_hundredths (nat (round_hundredths (js_rem L 30)))
       \<and> degree (houseEntry L) = show_hundredths (nat (round_hundredths (js_rem L 30)))
       \<and> 0 \<le> round_hundredths (js_rem L 30) \<and> round_hundredths (js_rem L 30) \<le> 3000
       \<and> \<bar>of_int (round_hundredths (js_rem L 30)) / 100 - js_rem L 30\<bar> \<le> 1 / 200
       \<and> (round_hundredths (js_rem L 30) = 3000 \<longleftrightarrow> 29995 / 1000 \<le> js_rem L 30)"
proof -
  have idx: "signIndex L = \<lfloor>L / 30\<rfloor>"
    using assms(1) by (rule signIndex_nonneg)
  have rem: "js_rem L 30 = L - 30 * of_int \<lfloor>L / 30\<rfloor>"
    using assms(1) by (rule js_rem_30_nonneg)
  have lo: "0 \<le> js_rem L 30" and hi: "js_rem L 30 < 30"
    using floor_mod_30_bounds [of L] by (simp_all add: rem)
  have deg: "degreeOf L = show_hundredths (nat (round_hundredths (js_rem L 30)))"
    using lo by (simp add: degreeOf_def toFixed2_def)
  have top: "round_hundredths (js_rem L 30) = 3000 \<longleftrightarrow> 29995 / 1000 \<le> js_rem L 30"
    using hi unfolding round_hundredths_def floor_eq_iff by auto
  show ?thesis
    using idx rem lo hi deg top signIndex_range [OF assms] sign_of_entries [OF assms]
      round_hundredths_range [OF lo hi] round_hundredths_close [of "js_rem L 30"]
    by (simp add: planetEntry_def houseEntry_def)
qed

theorem C1_tauro_witness:
  "(0::real) \<le> 30 \<and> (30::real) < 360 \<and> signIndex 30 = 1
   \<and> sign (planetEntry 30) = Some ''Tauro'' \<and> sign (houseEntry 30) = Some ''Tauro''
   \<and> js_rem 30 30 = 0 \<and> degree (planetEntry 30) = ''0.00''"
proof -
  have e1: "signNames ! nat \<lfloor>(30::real) / 30\<rfloor> = ''Tauro''"
    by (simp add: signNames_def)
  have e2: "js_rem 30 30 = 0"
    by (simp add: js_rem_def js_trunc_def)
  have e3: "show_hundredths (nat (round_hundredths 0)) = ''0.00''"
    by code_simp
  from C1_sign_and_rounded_degree [of 30] show ?thesis
    by (simp only: e1 e2 e3) simp
qed

text \<open>
  C1 as stated fails on the degree: at 29.99609375 the record's degree is the string 30.00,
  which is neither \<open>L mod 30\<close> nor below 30.
\<close>

theorem C1_degree_counterexample:
  "(0::real) \<le> 7679 / 256 \<and> (7679 / 256 :: real) < 360
   \<and> degree (planetEntry (7679 / 256)) = ''30.00''
   \<and> \<not> real_of_int (round_hundredths (js_rem (7679 / 256) 30)) / 100 < 30
   \<and> real_of_int (round_hundredths (js_rem (7679 / 256) 30)) / 100 \<noteq> js_rem (7679 / 256) 30"
  by code_simp

subsection \<open>Longitudes out of range\<close>




subsection \<open>Precision of the stored degree\<close>

text \<open>
  C5, as the code has it. For a longitude in \<open>[0, 360)\<close> the degree stored in a body's and
  in a cusp's record is the string \<open>(lon % 30).toFixed(2)\<close>, the two decimals of
  \<open>lon mod 30\<close> rounded to hundredths: the rounding happens when the record is built, the
  stored value is within 0.005 of \<open>lon mod 30\<close>, and two longitudes of the range whose
  remainders round to the same hundredth have the same stored degree. Only the field
  \<open>longitude\<close> keeps the full value.
\<close>

theorem C5_degree_stored_rounded:
  assumes "0 \<le> L" and "L < 360"
  shows "degree (planetEntry L)
           = show_hundredths (nat (round_hundredths (L - 30 * of_int \<lfloor>L / 30\<rfloor>)))
       \<and> degree (houseEntry L)
           = show_hundredths (nat (round_hundredths (L - 30 * of_int \<lfloor>L / 30\<rfloor>)))
       \<and> degree (planetEntry L) = toFixed2 (js_rem L 30)
       \<and> degree (houseEntry L) = toFixed2 (js_rem L 30)
       \<and> js_rem L 30 = L - 30 * of_int \<lfloor>L / 30\<rfloor>
       \<and> longitude (planetEntry L) = L \<and> longitude (houseEntry L) = L
       \<and> 0 \<le> round_hundredths (L - 30 * of_int \<lfloor>L / 30\<rfloor>)
       \<and> \<bar>of_int (round_hundredths (L - 30 * of_int \<lfloor>L / 30\<rfloor>)) / 100
            - (L - 30 * of_int \<lfloor>L / 30\<rfloor>)\<bar> \<le> 1 / 200
       \<and> (0 \<le> L' \<longrightarrow> L' < 360 \<longrightarrow>
            round_hundredths (L - 30 * of_int \<lfloor>L / 30\<rfloor>)
              = round_hundredths (L' - 30 * of_int \<lfloor>L' / 30\<rfloor>) \<longrightarrow>
            degree (planetEntry L) = degree (planetEntry L')
            \<and> degree (houseEntry L) = degree (houseEntry L'))"
proof -
  let ?m = "\<lambda>M::real. M - 30 * of_int \<lfloor>M / 30\<rfloor>"
  have stored: "degreeOf M = show_hundredths (nat (round_hundredths (?m M)))"
    if "0 \<le> M" for M :: real
    using floor_mod_30_bounds(1) [of M] that
    by (simp add: degreeOf_def toFixed2_def js_rem_30_nonneg)
  have degs: "degree (planetEntry M) = degreeOf M" "degree (houseEntry M) = degreeOf M"
    "longitude (planetEntry M) = M" "longitude (houseEntry M) = M" for M :: real
    by (simp_all add: planetEntry_def houseEntry_def)
  have fixed: "degreeOf L = toFixed2 (js_rem L 30)"
    by (simp add: degreeOf_def)
  have lo: "0 \<le> ?m L" and hi: "?m L < 30"
    using floor_mod_30_bounds [of L] by simp_all
  have same: "degreeOf L = degreeOf L'"
    if "0 \<le> L'" and "round_hundredths (?m L) = round_hundredths (?m L')"
    using that stored [OF assms(1)] stored [of L'] by simp
  show ?thesis
    unfolding degs
    using stored [OF assms(1)] fixed same round_hundredths_range(1) [OF lo hi]
      round_hundredths_close [of "?m L"] js_rem_30_nonneg [OF assms(1)]
    by simp
qed

theorem C5_same_hundredth_witness:
  "(0::real) \<le> 15489 / 1024 \<and> (15489 / 1024 :: real) < 360
   \<and> (0::real) \<le> 15497 / 1024 \<and> (15497 / 1024 :: real) < 360
   \<and> round_hundredths (15489 / 1024 - 30 * of_int \<lfloor>(15489 / 1024 :: real) / 30\<rfloor>) = 1513
   \<and> round_hundredths (15497 / 1024 - 30 * of_int \<lfloor>(15497 / 1024 :: real) / 30\<rfloor>) = 1513
   \<and> degree (planetEntry (15489 / 1024)) = degree (planetEntry (15497 / 1024))
   \<and> degree (houseEntry (15489 / 1024)) = degree (houseEntry (15497 / 1024))"
proof -
  have r: "round_hundredths (15489 / 1024 - 30 * of_int \<lfloor>(15489 / 1024 :: real) / 30\<rfloor>) = 1513"
    "round_hundredths (15497 / 1024 - 30 * of_int \<lfloor>(15497 / 1024 :: real) / 30\<rfloor>) = 1513"
    by (simp_all add: round_hundredths_def)
  have h: "(0::real) \<le> 15489 / 1024" "(15489 / 1024 :: real) < 360"
    "(0::real) \<le> 15497 / 1024" "(15497 / 1024 :: real) < 360"
    by simp_all
  from r have e: "round_hundredths (15489 / 1024 - 30 * of_int \<lfloor>(15489 / 1024 :: real) / 30\<rfloor>)
      = round_hundredths (15497 / 1024 - 30 * of_int \<lfloor>(15497 / 1024 :: real) / 30\<rfloor>)"
    by (simp only:)
  from C5_degree_stored_rounded [OF h(1,2), of "15497 / 1024"] e r h show ?thesis
    by blast
qed

text \<open>
  C5 as stated fails: for the longitude 15.1259765625 the stored degree is the string 15.13, for
  a body and for a cusp, while \<open>lon % 30\<close> is 15.1259765625.
\<close>

theorem C5_stored_degree_counterexample:
  "degree (planetEntry (15489 / 1024)) = ''15.13''
   \<and> degree (houseEntry (15489 / 1024)) = ''15.13''
   \<and> js_rem (15489 / 1024) 30 = 15489 / 1024
   \<and> real_of_int (round_hundredths (js_rem (15489 / 1024) 30)) / 100 \<noteq> js_rem (15489 / 1024) 30"
  by code_simp

section \<open>Properties of the handler\<close>

subsection \<open>The calls of each step\<close>

lemma calcPlanets_calls:
  "calcPlanets env jd ps = (cs, r) \<Longrightarrow> c \<in> set cs \<Longrightarrow> \<exists>p. c = CalcUt jd p"
  by (induction ps arbitrary: c cs r) (auto split: sum.splits prod.splits)

lemma planetsPrompt_calls:
  "planetsPrompt env hc lat pd = (cs, r) \<Longrightarrow> c \<in> set cs
     \<Longrightarrow> \<exists>x. c = HousePos (map hc [0..<13]) lat x"
  by (induction pd arbitrary: c cs r) (auto simp: Let_def split: sum.splits prod.splits)

lemma astroStage_calls:
  assumes "c \<in> set (fst (astroStage env b lat lng tzid off d))"
  shows "c = Julday (getFullYear d) (getMonth d + 1) (getDate d) (julianHour d off)
       \<or> (\<exists>jd p. c = CalcUt jd p) \<or> (\<exists>jd. c = Houses jd lat lng)
       \<or> (\<exists>hc x. c = HousePos hc lat x)
       \<or> (\<exists>fa. c = GenerateContent (textPrompt (numberToString env) fa (language b)))"
  using assms
  by (auto simp: astroStage_def Let_def narrativeStage_def
      split: sum.splits prod.splits option.splits
      dest: calcPlanets_calls planetsPrompt_calls)

lemma astroStage_first_call:
  "\<exists>cs. fst (astroStage env b lat lng tzid off d)
     = Julday (getFullYear d) (getMonth d + 1) (getDate d) (julianHour d off) # cs"
  by (auto simp: astroStage_def Let_def split: sum.splits prod.splits option.splits)

lemma astroStage_success:
  assumes "astroStage env b lat lng tzid off d = (cs, Inr r)"
  shows "\<exists>cs' fa t. cs = cs' @ [GenerateContent (textPrompt (numberToString env) fa (language b))]
           \<and> (\<forall>q. GenerateContent q \<notin> set cs')
           \<and> generateContent env (textPrompt (numberToString env) fa (language b)) = Inr t
           \<and> r = \<lparr> status = 200, sent = ChartText t \<rparr>"
  using assms
  by (fastforce simp: astroStage_def Let_def narrativeStage_def
      split: sum.splits prod.splits option.splits
      dest: calcPlanets_calls planetsPrompt_calls)


lemma timestampOf_div: "timestampOf d = getTime d div 1000"
  using floor_divide_of_int_eq [of "getTime d" 1000, where ?'a = real]
  by (simp add: timestampOf_def math_floor_def)

subsection \<open>The calls and the success of the whole handler\<close>

lemma handler_calls:
  assumes "c \<in> set (snd (generateAstralChart env req))"
  shows "c = Geocoding (str (birthPlace (body req)))
       \<or> (\<exists>lat lng rest d.
             nominatim env (str (birthPlace (body req))) = Body ((lat, lng) # rest)
             \<and> newDate env (str (birthDate (body req)) @ ''T'' @ str (birthTime (body req))
                             @ '':00'') = Some d
             \<and> (c = TimeZoneLookup lat lng (timestampOf d)
                \<or> (\<exists>tz. googleTimeZone env lat lng (timestampOf d) = Body tz
                       \<and> tzStatus tz = ''OK''
                       \<and> c \<in> set (fst (astroStage env (body req) lat lng (timeZoneId tz)
                                          (dstOffset tz + rawOffset tz) d)))))"
  using assms
  by (auto simp: generateAstralChart_def pipeline_def geocodeStage_def timezoneStage_def Let_def
      split: if_splits fetched.splits list.splits option.splits prod.splits sum.splits)

lemma handler_reaches_chart:
  assumes "req_method req = ''POST''"
    and "gemini_api_key env" and "google_maps_api_key env"
    and "\<not> incomplete (body req)"
    and "nominatim env (str (birthPlace (body req))) = Body ((lat, lng) # rest)"
    and "newDate env (str (birthDate (body req)) @ ''T'' @ str (birthTime (body req)) @ '':00'')
         = Some d"
    and "googleTimeZone env lat lng (timestampOf d) = Body tz"
    and "tzStatus tz = ''OK''"
  shows "\<exists>cs. snd (generateAstralChart env req)
           = Geocoding (str (birthPlace (body req))) # TimeZoneLookup lat lng (timestampOf d)
             # Julday (getFullYear d) (getMonth d + 1) (getDate d)
                 (julianHour d (dstOffset tz + rawOffset tz)) # cs"
proof -
  obtain cs where "fst (astroStage env (body req) lat lng (timeZoneId tz)
                     (dstOffset tz + rawOffset tz) d)
      = Julday (getFullYear d) (getMonth d + 1) (getDate d)
          (julianHour d (dstOffset tz + rawOffset tz)) # cs"
    using astroStage_first_call by blast
  with assms show ?thesis
    by (auto simp: generateAstralChart_def pipeline_def geocodeStage_def timezoneStage_def Let_def
        split: prod.splits sum.splits)
qed

lemma timezoneStage_success:
  assumes "timezoneStage env b lat lng = (cs, Inr r)" and "sent r = ChartText t"
  shows "\<exists>d (tz::timezoneData) cs'. cs = TimeZoneLookup lat lng (timestampOf d) # cs'
           \<and> astroStage env b lat lng (timeZoneId tz) (dstOffset tz + rawOffset tz) d = (cs', Inr r)"
  using assms
  by (auto simp: timezoneStage_def Let_def
      split: option.splits fetched.splits if_splits prod.splits)

lemma geocodeStage_success:
  assumes "geocodeStage env b = (cs, Inr r)" and "sent r = ChartText t"
  shows "\<exists>lat lng cs'. cs = Geocoding (str (birthPlace b)) # cs'
           \<and> timezoneStage env b lat lng = (cs', Inr r)"
  using assms
  by (auto simp: geocodeStage_def Let_def split: fetched.splits list.splits prod.splits)

lemma pipeline_success:
  assumes "pipeline env b = (cs, Inr r)" and "sent r = ChartText t"
  shows "geocodeStage env b = (cs, Inr r)"
  using assms by (auto simp: pipeline_def split: if_splits)

lemma handler_success_pipeline:
  assumes "sent (fst (generateAstralChart env req)) = ChartText t"
  shows "pipeline env (body req) = (snd (generateAstralChart env req), Inr (fst (generateAstralChart env req)))"
  using assms
  by (auto simp: generateAstralChart_def split: if_splits prod.splits sum.splits)

lemma handler_success:
  assumes "sent (fst (generateAstralChart env req)) = ChartText t"
  shows "\<exists>cs fa. snd (generateAstralChart env req)
             = cs @ [GenerateContent (textPrompt (numberToString env) fa (language (body req)))]
           \<and> (\<forall>q. GenerateContent q \<notin> set cs)
           \<and> generateContent env (textPrompt (numberToString env) fa (language (body req))) = Inr t
           \<and> fst (generateAstralChart env req) = \<lparr> status = 200, sent = ChartText t \<rparr>"
proof -
  let ?r = "fst (generateAstralChart env req)"
  let ?cs = "snd (generateAstralChart env req)"
  from pipeline_success [OF handler_success_pipeline [OF assms] assms]
  have "geocodeStage env (body req) = (?cs, Inr ?r)" .
  from geocodeStage_success [OF this assms] obtain lat lng cs1 where
    c1: "?cs = Geocoding (str (birthPlace (body req))) # cs1"
    and t: "timezoneStage env (body req) lat lng = (cs1, Inr ?r)"
    by blast
  from timezoneStage_success [OF t assms] obtain d and tz :: timezoneData and cs2 where
    c2: "cs1 = TimeZoneLookup lat lng (timestampOf d) # cs2"
    and a: "astroStage env (body req) lat lng (timeZoneId tz) (dstOffset tz + rawOffset tz) d
            = (cs2, Inr ?r)"
    by blast
  from astroStage_success [OF a] obtain cs' fa t' where
    c: "cs2 = cs' @ [GenerateContent (textPrompt (numberToString env) fa (language (body req)))]"
    and n: "\<forall>q. GenerateContent q \<notin> set cs'"
    and g: "generateContent env (textPrompt (numberToString env) fa (language (body req))) = Inr t'"
    and r: "?r = \<lparr> status = 200, sent = ChartText t' \<rparr>"
    by blast
  from assms r have "t' = t" by simp
  with c1 c2 c n g r show ?thesis
    by (intro exI [of _ "Geocoding (str (birthPlace (body req)))
          # TimeZoneLookup lat lng (timestampOf d) # cs'"] exI [of _ fa]) simp
qed



lemma timezone_lookup_call:
  assumes "TimeZoneLookup lat lng ts \<in> set (snd (generateAstralChart env req))"
  shows "\<exists>d rest. nominatim env (str (birthPlace (body req))) = Body ((lat, lng) # rest)
           \<and> newDate env (str (birthDate (body req)) @ ''T'' @ str (birthTime (body req))
                           @ '':00'') = Some d
           \<and> ts = getTime d div 1000"
  using handler_calls [OF assms]
  by (auto simp: timestampOf_div dest!: astroStage_calls)

lemma julday_call:
  assumes "Julday y mo dd h \<in> set (snd (generateAstralChart env req))"
  shows "\<exists>d lat lng rest tz.
           nominatim env (str (birthPlace (body req))) = Body ((lat, lng) # rest)
           \<and> newDate env (str (birthDate (body req)) @ ''T'' @ str (birthTime (body req))
                           @ '':00'') = Some d
           \<and> googleTimeZone env lat lng (getTime d div 1000) = Body tz \<and> tzStatus tz = ''OK''
           \<and> y = getFullYear d \<and> mo = getMonth d + 1 \<and> dd = getDate d
           \<and> h = of_int (getHours d) + (dstOffset tz + rawOffset tz) / 3600"
  using handler_calls [OF assms]
  by (auto simp: timestampOf_div julianHour_def dest!: astroStage_calls)

subsection \<open>The path on which every collaborator answers\<close>

lemma calcPlanets_ok:
  assumes "\<forall>p. \<exists>x. swe_calc_ut env jd p = Inr x"
  shows "\<exists>cs pd. calcPlanets env jd ps = (cs, Inr pd) \<and> map fst pd = map planetNames ps"
proof (induction ps)
  case Nil
  show ?case by simp
next
  case (Cons p ps)
  from assms obtain x where "swe_calc_ut env jd p = Inr x" by blast
  with Cons show ?case by auto
qed

lemma planetsPrompt_ok:
  assumes "\<forall>x. \<exists>y. swe_house_pos env hc lat x = Inr y"
  shows "\<exists>cs ls. planetsPrompt env hc lat pd = (cs, Inr ls)"
proof (induction pd)
  case Nil
  show ?case by simp
next
  case (Cons e pd)
  obtain name p where e: "e = (name, p)" by (cases e)
  from assms obtain y where "swe_house_pos env hc lat (longitude p) = Inr y" by blast
  with Cons e show ?case by (auto simp: Let_def)
qed

lemma astroStage_ok:
  assumes "\<forall>y mo d h. \<exists>jd. swe_julday env y mo d h = Inr jd"
    and "\<forall>jd p. \<exists>x. swe_calc_ut env jd p = Inr x"
    and "\<forall>jd. \<exists>ascmc. swe_houses env jd lat lng = Inr ascmc"
    and "\<forall>hc x. \<exists>y. swe_house_pos env hc lat x = Inr y"
    and "\<forall>p. \<exists>t. generateContent env p = Inr t"
  shows "\<exists>cs t. astroStage env b lat lng tzid off d = (cs, Inr \<lparr> status = 200, sent = ChartText t \<rparr>)"
proof -
  let ?y = "getFullYear d" and ?mo = "getMonth d + 1" and ?d = "getDate d"
  let ?h = "julianHour d off"
  from assms(1) obtain jd where j: "swe_julday env ?y ?mo ?d ?h = Inr jd" by blast
  from calcPlanets_ok [of env jd planets] assms(2) obtain cs1 pd where
    c: "calcPlanets env jd planets = (cs1, Inr pd)" and k: "map fst pd = map planetNames planets"
    by blast
  from assms(3) obtain ascmc where a: "swe_houses env jd lat lng = Inr ascmc" by blast
  have "''Sol'' \<in> fst ` set pd" and "''Luna'' \<in> fst ` set pd"
    using k [THEN arg_cong, of set] by (simp_all add: planets_def)
  then obtain sol luna where s: "map_of pd ''Sol'' = Some sol" and l: "map_of pd ''Luna'' = Some luna"
    by (meson map_of_eq_None_iff not_Some_eq)
  from planetsPrompt_ok [of env "house ascmc" lat pd] assms(4) obtain cs3 ls where
    p: "planetsPrompt env (house ascmc) lat pd = (cs3, Inr ls)" by blast
  from assms(5) obtain t where
    g: "generateContent env (textPrompt (numberToString env)
          (finalAstroData b tzid off lat lng sol luna ascmc ls) (language b)) = Inr t"
    by blast
  from j c a s l p g show ?thesis
    by (simp add: astroStage_def Let_def narrativeStage_def)
qed

subsection \<open>The runs of the example\<close>

lemma example_run:
  assumes "nd (dt @ ''T'' @ t @ '':00'') = Some d"
    and "dt \<noteq> []" and "t \<noteq> []" and "lg \<noteq> []"
  shows "fst (generateAstralChart (exampleEnv\<lparr>newDate := nd\<rparr>)
               \<lparr> req_method = ''POST'',
                 body = exampleBody\<lparr>birthDate := Some dt, birthTime := Some t,
                                    language := Some lg\<rparr> \<rparr>)
           = \<lparr> status = 200, sent = ChartText ''# Carta Astral'' \<rparr>"
    and "\<exists>cs. snd (generateAstralChart (exampleEnv\<lparr>newDate := nd\<rparr>)
                  \<lparr> req_method = ''POST'',
                    body = exampleBody\<lparr>birthDate := Some dt, birthTime := Some t,
                                       language := Some lg\<rparr> \<rparr>)
           = Geocoding ''Paris, France''
             # TimeZoneLookup (488566 / 10000) (23522 / 10000) (getTime d div 1000)
             # Julday (getFullYear d) (getMonth d + 1) (getDate d) (of_int (getHours d) + 1) # cs"
proof -
  let ?env = "exampleEnv\<lparr>newDate := nd\<rparr>"
  let ?b = "exampleBody\<lparr>birthDate := Some dt, birthTime := Some t, language := Some lg\<rparr>"
  let ?req = "\<lparr> req_method = ''POST'', body = ?b \<rparr>"
  let ?tz = "\<lparr> tzStatus = ''OK'', timeZoneId = ''Europe/Paris'', dstOffset = 0,
               rawOffset = 3600, errorMessage = None \<rparr>"
  have h: "req_method ?req = ''POST''" "gemini_api_key ?env" "google_maps_api_key ?env"
    by (simp_all add: exampleEnv_def)
  have i: "\<not> incomplete (body ?req)"
    using assms(2-4) by (simp add: exampleBody_def incomplete_def falsy_def)
  have p: "str (birthPlace (body ?req)) = ''Paris, France''"
    by (simp add: exampleBody_def str_def)
  have g: "nominatim ?env (str (birthPlace (body ?req)))
           = Body ((488566 / 10000, 23522 / 10000) # [])"
    unfolding p by (simp add: exampleEnv_def)
  have n: "newDate ?env (str (birthDate (body ?req)) @ ''T'' @ str (birthTime (body ?req))
             @ '':00'') = Some d"
    using assms(1) by (simp add: str_def)
  have z: "googleTimeZone ?env (488566 / 10000) (23522 / 10000) (timestampOf d) = Body ?tz"
    by (simp add: exampleEnv_def)
  have k: "tzStatus ?tz = ''OK''" by simp
  have j: "julianHour d (dstOffset ?tz + rawOffset ?tz) = of_int (getHours d) + 1"
    by (simp add: julianHour_def)
  from handler_reaches_chart [OF h i g n z k]
  show "\<exists>cs. snd (generateAstralChart ?env ?req)
           = Geocoding ''Paris, France''
             # TimeZoneLookup (488566 / 10000) (23522 / 10000) (getTime d div 1000)
             # Julday (getFullYear d) (getMonth d + 1) (getDate d) (of_int (getHours d) + 1) # cs"
    unfolding p j timestampOf_div .
  have "\<exists>cs x. astroStage ?env ?b (488566 / 10000) (23522 / 10000)
          (timeZoneId ?tz) (dstOffset ?tz + rawOffset ?tz) d
        = (cs, Inr \<lparr> status = 200, sent = ChartText x \<rparr>)"
    by (rule astroStage_ok) (simp_all add: exampleEnv_def)
  then obtain cs x where a: "astroStage ?env ?b (488566 / 10000) (23522 / 10000)
          (timeZoneId ?tz) (dstOffset ?tz + rawOffset ?tz) d
        = (cs, Inr \<lparr> status = 200, sent = ChartText x \<rparr>)"
    by blast
  from astroStage_success [OF a] have "x = ''# Carta Astral''"
    by (auto simp: exampleEnv_def)
  with a h i g n z show "fst (generateAstralChart ?env ?req)
           = \<lparr> status = 200, sent = ChartText ''# Carta Astral'' \<rparr>"
    by (simp add: generateAstralChart_def pipeline_def geocodeStage_def timezoneStage_def)
qed

lemma example_dates:
  "utcDate (''1990-03-21'' @ ''T'' @ ''12:00'' @ '':00'')
     = Some \<lparr> getTime = 638020800000, getFullYear = 1990, getMonth = 2, getDate = 21,
              getHours = 12, getMinutes = 0 \<rparr>"
  "utcDate (''1990-03-21'' @ ''T'' @ ''12:30'' @ '':00'')
     = Some \<lparr> getTime = 638022600000, getFullYear = 1990, getMonth = 2, getDate = 21,
              getHours = 12, getMinutes = 30 \<rparr>"
  "utcMinus5Date (''1990-03-21'' @ ''T'' @ ''12:00'' @ '':00'')
     = Some \<lparr> getTime = 638038800000, getFullYear = 1990, getMonth = 2, getDate = 21,
              getHours = 12, getMinutes = 0 \<rparr>"
  "utcDate (''1990-02-30'' @ ''T'' @ ''12:00'' @ '':00'')
     = Some \<lparr> getTime = 636379200000, getFullYear = 1990, getMonth = 2, getDate = 2,
              getHours = 12, getMinutes = 0 \<rparr>"
  by (simp_all add: utcDate_def utcMinus5Date_def)

lemma example_forms:
  "exampleEnv\<lparr>newDate := utcDate\<rparr> = exampleEnv"
  "\<lparr> req_method = ''POST'',
     body = exampleBody\<lparr>birthDate := Some ''1990-03-21'', birthTime := Some ''12:00'',
                        language := Some ''es''\<rparr> \<rparr> = exampleRequest"
  "\<lparr> req_method = ''POST'',
     body = exampleBody\<lparr>birthDate := Some ''1990-03-21'', birthTime := Some ''12:30'',
                        language := Some ''es''\<rparr> \<rparr>
     = exampleRequest\<lparr>body := exampleBody\<lparr>birthTime := Some ''12:30''\<rparr>\<rparr>"
  "\<lparr> req_method = ''POST'',
     body = exampleBody\<lparr>birthDate := Some ''1990-02-30'', birthTime := Some ''12:00'',
                        language := Some ''es''\<rparr> \<rparr>
     = exampleRequest\<lparr>body := exampleBody\<lparr>birthDate := Some ''1990-02-30''\<rparr>\<rparr>"
  "\<lparr> req_method = ''POST'',
     body = exampleBody\<lparr>birthDate := Some ''1990-03-21'', birthTime := Some ''12:00'',
                        language := Some lg\<rparr> \<rparr>
     = \<lparr> req_method = ''POST'', body = exampleBody\<lparr>language := Some lg\<rparr> \<rparr>"
  by (simp_all add: exampleEnv_def exampleRequest_def exampleBody_def)

lemma example_calls:
  "\<exists>cs. snd (generateAstralChart exampleEnv exampleRequest)
      = Geocoding ''Paris, France''
        # TimeZoneLookup (488566 / 10000) (23522 / 10000) 638020800
        # Julday 1990 3 21 13 # cs"
  using example_run(2) [of utcDate "''1990-03-21''" "''12:00''" _ "''es''", OF example_dates(1)]
  by (simp add: example_forms)

lemma example_calls_half_past:
  "\<exists>cs. snd (generateAstralChart exampleEnv
               (exampleRequest\<lparr>body := exampleBody\<lparr>birthTime := Some ''12:30''\<rparr>\<rparr>))
      = Geocoding ''Paris, France''
        # TimeZoneLookup (488566 / 10000) (23522 / 10000) 638022600
        # Julday 1990 3 21 13 # cs"
  using example_run(2) [of utcDate "''1990-03-21''" "''12:30''" _ "''es''", OF example_dates(2)]
  by (simp add: example_forms)

lemma example_calls_other_host:
  "\<exists>cs. snd (generateAstralChart (exampleEnv\<lparr>newDate := utcMinus5Date\<rparr>) exampleRequest)
      = Geocoding ''Paris, France''
        # TimeZoneLookup (488566 / 10000) (23522 / 10000) 638038800
        # Julday 1990 3 21 13 # cs"
  using example_run(2) [of utcMinus5Date "''1990-03-21''" "''12:00''" _ "''es''",
      OF example_dates(3)]
  by (simp add: example_forms)

lemma example_success_language:
  assumes "lg \<noteq> []"
  shows "fst (generateAstralChart exampleEnv
               \<lparr> req_method = ''POST'', body = exampleBody\<lparr>language := Some lg\<rparr> \<rparr>)
     = \<lparr> status = 200, sent = ChartText ''# Carta Astral'' \<rparr>"
  using example_run(1) [of utcDate "''1990-03-21''" "''12:00''" _ lg, OF example_dates(1)] assms
  by (simp add: example_forms)


lemma example_rollover:
  "fst (generateAstralChart exampleEnv
         (exampleRequest\<lparr>body := exampleBody\<lparr>birthDate := Some ''1990-02-30''\<rparr>\<rparr>))
     = \<lparr> status = 200, sent = ChartText ''# Carta Astral'' \<rparr>"
  "\<exists>cs. snd (generateAstralChart exampleEnv
         (exampleRequest\<lparr>body := exampleBody\<lparr>birthDate := Some ''1990-02-30''\<rparr>\<rparr>))
      = Geocoding ''Paris, France''
        # TimeZoneLookup (488566 / 10000) (23522 / 10000) 636379200
        # Julday 1990 3 2 13 # cs"
  using example_run [of utcDate "''1990-02-30''" "''12:00''" _ "''es''", OF example_dates(4)]
  by (simp_all add: example_forms)

subsection \<open>Missing fields\<close>

text \<open>
  C7. A request in which any one of the five fields is absent or empty makes no call:
  the list of calls is empty, whatever the method and the configuration. When the
  request has passed the two gates in front of the validation, that is, it is a POST
  request to a deployment with both API keys configured, the response has the status 400,
  with the message about incomplete data.
\<close>

theorem C7_missing_field_400:
  assumes "field \<in> {birthDate, birthTime, birthPlace, userSex, language}"
    and "falsy (field (body req))"
  shows "snd (generateAstralChart env req) = []
       \<and> (req_method req = ''POST'' \<longrightarrow> gemini_api_key env \<longrightarrow> google_maps_api_key env \<longrightarrow>
            fst (generateAstralChart env req)
              = \<lparr> status = 400, sent = Message incompleteMessage \<rparr>)"
proof -
  from assms have "incomplete (body req)"
    by (auto simp: incomplete_def)
  then show ?thesis
    by (simp add: generateAstralChart_def pipeline_def)
qed

theorem C7_no_language_witness:
  "falsy (language (body (exampleRequest\<lparr>body := exampleBody\<lparr>language := None\<rparr>\<rparr>)))
   \<and> req_method (exampleRequest\<lparr>body := exampleBody\<lparr>language := None\<rparr>\<rparr>) = ''POST''
   \<and> gemini_api_key exampleEnv \<and> google_maps_api_key exampleEnv
   \<and> generateAstralChart exampleEnv (exampleRequest\<lparr>body := exampleBody\<lparr>language := None\<rparr>\<rparr>)
       = (\<lparr> status = 400, sent = Message incompleteMessage \<rparr>, [])"
proof -
  let ?req = "exampleRequest\<lparr>body := exampleBody\<lparr>language := None\<rparr>\<rparr>"
  have h: "req_method ?req = ''POST''" "gemini_api_key exampleEnv" "google_maps_api_key exampleEnv"
    "falsy (language (body ?req))"
    by (simp_all add: exampleRequest_def exampleEnv_def falsy_def)
  have "language \<in> {birthDate, birthTime, birthPlace, userSex, language}" by simp
  from C7_missing_field_400 [OF this h(4), of exampleEnv] h show ?thesis
    by (simp add: prod_eq_iff)
qed

subsection \<open>Invalid dates\<close>

text \<open>
  The check of the date is \<open>isNaN(localDate.getTime())\<close>, made after the geocoding: when
  the \<open>Date\<close> of the composed string is invalid, the response is 400 with the message
  about the format of the date or hour, after the one geocoding call.
\<close>

lemma invalid_date_refused:
  assumes "req_method req = ''POST''"
    and "gemini_api_key env" and "google_maps_api_key env"
    and "\<not> incomplete (body req)"
    and "nominatim env (str (birthPlace (body req))) = Body ((lat, lng) # rest)"
    and "newDate env (str (birthDate (body req)) @ ''T'' @ str (birthTime (body req)) @ '':00'')
         = None"
  shows "generateAstralChart env req
         = (\<lparr> status = 400, sent = Message invalidDateMessage \<rparr>,
            [Geocoding (str (birthPlace (body req)))])"
  using assms
  by (simp add: generateAstralChart_def pipeline_def geocodeStage_def timezoneStage_def)

text \<open>
  C8 at the 30th of February 1990, 12:00, in the example. The composed string is
  \<open>1990-02-30T12:00:00\<close>, which denotes no calendar day. \<open>new Date\<close> does not refuse it:
  it takes the day 30 of the month 02 and rolls it over, to the 2nd of March 1990 (the
  month 2 counted from 0, the day 2), so \<open>getTime()\<close> is a number and the check of the
  handler lets the request pass. The lookup of the time zone is made for the instant
  636379200, \<open>swe_julday\<close> is called for the 2nd of March, and the chart is sent with the
  status 200, not 400; the message about the invalid date is not sent.
\<close>

theorem C8_february_30_charted:
  "newDate exampleEnv (str (birthDate (exampleBody\<lparr>birthDate := Some ''1990-02-30''\<rparr>)) @ ''T''
       @ str (birthTime (exampleBody\<lparr>birthDate := Some ''1990-02-30''\<rparr>)) @ '':00'')
     = Some \<lparr> getTime = 636379200000, getFullYear = 1990, getMonth = 2, getDate = 2,
              getHours = 12, getMinutes = 0 \<rparr>
   \<and> fst (generateAstralChart exampleEnv
            (exampleRequest\<lparr>body := exampleBody\<lparr>birthDate := Some ''1990-02-30''\<rparr>\<rparr>))
       = \<lparr> status = 200, sent = ChartText ''# Carta Astral'' \<rparr>
   \<and> fst (generateAstralChart exampleEnv
            (exampleRequest\<lparr>body := exampleBody\<lparr>birthDate := Some ''1990-02-30''\<rparr>\<rparr>))
       \<noteq> \<lparr> status = 400, sent = Message invalidDateMessage \<rparr>
   \<and> TimeZoneLookup (488566 / 10000) (23522 / 10000) 636379200
       \<in> set (snd (generateAstralChart exampleEnv
                 (exampleRequest\<lparr>body := exampleBody\<lparr>birthDate := Some ''1990-02-30''\<rparr>\<rparr>)))
   \<and> Julday 1990 3 2 13
       \<in> set (snd (generateAstralChart exampleEnv
                 (exampleRequest\<lparr>body := exampleBody\<lparr>birthDate := Some ''1990-02-30''\<rparr>\<rparr>)))"
proof -
  let ?req = "exampleRequest\<lparr>body := exampleBody\<lparr>birthDate := Some ''1990-02-30''\<rparr>\<rparr>"
  have a: "newDate exampleEnv (str (birthDate (exampleBody\<lparr>birthDate := Some ''1990-02-30''\<rparr>))
       @ ''T'' @ str (birthTime (exampleBody\<lparr>birthDate := Some ''1990-02-30''\<rparr>)) @ '':00'')
     = Some \<lparr> getTime = 636379200000, getFullYear = 1990, getMonth = 2, getDate = 2,
              getHours = 12, getMinutes = 0 \<rparr>"
    by (simp add: exampleEnv_def exampleBody_def str_def utcDate_def)
  have b: "fst (generateAstralChart exampleEnv ?req)
             = \<lparr> status = 200, sent = ChartText ''# Carta Astral'' \<rparr>"
    by (rule example_rollover(1))
  then have c: "fst (generateAstralChart exampleEnv ?req)
             \<noteq> \<lparr> status = 400, sent = Message invalidDateMessage \<rparr>"
    by simp
  from example_rollover(2) obtain cs where
    "snd (generateAstralChart exampleEnv ?req)
      = Geocoding ''Paris, France''
        # TimeZoneLookup (488566 / 10000) (23522 / 10000) 636379200
        # Julday 1990 3 2 13 # cs"
    by blast
  then have d: "TimeZoneLookup (488566 / 10000) (23522 / 10000) 636379200
                  \<in> set (snd (generateAstralChart exampleEnv ?req))"
    and e: "Julday 1990 3 2 13 \<in> set (snd (generateAstralChart exampleEnv ?req))"
    by simp_all
  from a b c d e show ?thesis by blast
qed

subsection \<open>The time zone lookup and the hour of the day number\<close>

text \<open>
  C6, as the code has it. Every time zone lookup is made at the coordinates of the first
  geocoding result with the timestamp \<open>floor(getTime() / 1000)\<close> of the \<open>Date\<close> that the
  runtime builds from the birth date and time, the string carrying no zone: the timestamp
  depends on the birth date, the birth time and the runtime, not on the place and not on
  the time of the request. Every call of \<open>swe_julday\<close> has the year, month and day of that
  \<open>Date\<close> and the hour \<open>getHours() + (dstOffset + rawOffset) / 3600\<close> with the two offsets of
  the lookup's answer.
\<close>

theorem C6_offset_and_timestamp:
  "(TimeZoneLookup lat lng ts \<in> set (snd (generateAstralChart env req)) \<longrightarrow>
      (\<exists>d rest. nominatim env (str (birthPlace (body req))) = Body ((lat, lng) # rest)
         \<and> newDate env (str (birthDate (body req)) @ ''T'' @ str (birthTime (body req))
                         @ '':00'') = Some d
         \<and> ts = getTime d div 1000))
   \<and> (Julday y mo dd h \<in> set (snd (generateAstralChart env req)) \<longrightarrow>
      (\<exists>d lat' lng' rest tz.
         nominatim env (str (birthPlace (body req))) = Body ((lat', lng') # rest)
         \<and> newDate env (str (birthDate (body req)) @ ''T'' @ str (birthTime (body req))
                         @ '':00'') = Some d
         \<and> googleTimeZone env lat' lng' (getTime d div 1000) = Body tz \<and> tzStatus tz = ''OK''
         \<and> y = getFullYear d \<and> mo = getMonth d + 1 \<and> dd = getDate d
         \<and> h = of_int (getHours d) + (dstOffset tz + rawOffset tz) / 3600))"
  using timezone_lookup_call [of lat lng ts env req] julday_call [of y mo dd h env req]
  by blast

theorem C6_paris_witness:
  "TimeZoneLookup (488566 / 10000) (23522 / 10000) 638020800
     \<in> set (snd (generateAstralChart exampleEnv exampleRequest))
   \<and> Julday 1990 3 21 13 \<in> set (snd (generateAstralChart exampleEnv exampleRequest))
   \<and> (\<exists>d. newDate exampleEnv ''1990-03-21T12:00:00'' = Some d \<and> getTime d div 1000 = 638020800
          \<and> (\<exists>lat lng tz. googleTimeZone exampleEnv lat lng 638020800 = Body tz
                 \<and> (13::real) = of_int (getHours d) + (dstOffset tz + rawOffset tz) / 3600))"
proof -
  have m: "TimeZoneLookup (488566 / 10000) (23522 / 10000) 638020800
             \<in> set (snd (generateAstralChart exampleEnv exampleRequest))"
    "Julday 1990 3 21 13 \<in> set (snd (generateAstralChart exampleEnv exampleRequest))"
    using example_calls by auto
  have s: "str (birthDate (body exampleRequest)) @ ''T'' @ str (birthTime (body exampleRequest))
             @ '':00'' = ''1990-03-21T12:00:00''"
    "str (birthPlace (body exampleRequest)) = ''Paris, France''"
    by (simp_all add: exampleRequest_def exampleBody_def str_def)
  have g: "nominatim exampleEnv ''Paris, France'' = Body [(488566 / 10000, 23522 / 10000)]"
    by (simp add: exampleEnv_def)
  from C6_offset_and_timestamp [of "488566 / 10000" "23522 / 10000" 638020800 exampleEnv
      exampleRequest 1990 3 21 13, unfolded s g] m
  show ?thesis by fastforce
qed

text \<open>
  C6 as stated fails on the instant: the same request sends the timestamp 638020800 from a
  host in UTC and 638038800 from a host five hours behind, so the timestamp depends on
  the server.
\<close>

theorem C6_host_zone_counterexample:
  "TimeZoneLookup (488566 / 10000) (23522 / 10000) 638020800
     \<in> set (snd (generateAstralChart exampleEnv exampleRequest))
   \<and> TimeZoneLookup (488566 / 10000) (23522 / 10000) 638038800
     \<in> set (snd (generateAstralChart (exampleEnv\<lparr>newDate := utcMinus5Date\<rparr>) exampleRequest))
   \<and> TimeZoneLookup (488566 / 10000) (23522 / 10000) 638020800
     \<notin> set (snd (generateAstralChart (exampleEnv\<lparr>newDate := utcMinus5Date\<rparr>) exampleRequest))"
proof -
  have a: "TimeZoneLookup (488566 / 10000) (23522 / 10000) 638020800
             \<in> set (snd (generateAstralChart exampleEnv exampleRequest))"
    using example_calls by auto
  have b: "TimeZoneLookup (488566 / 10000) (23522 / 10000) 638038800
     \<in> set (snd (generateAstralChart (exampleEnv\<lparr>newDate := utcMinus5Date\<rparr>) exampleRequest))"
    using example_calls_other_host by auto
  have c: "TimeZoneLookup (488566 / 10000) (23522 / 10000) 638020800
     \<notin> set (snd (generateAstralChart (exampleEnv\<lparr>newDate := utcMinus5Date\<rparr>) exampleRequest))"
  proof
    assume "TimeZoneLookup (488566 / 10000) (23522 / 10000) 638020800
     \<in> set (snd (generateAstralChart (exampleEnv\<lparr>newDate := utcMinus5Date\<rparr>) exampleRequest))"
    from timezone_lookup_call [OF this] show False
      by (auto simp: exampleRequest_def exampleBody_def str_def utcMinus5Date_def)
  qed
  from a b c show ?thesis by blast
qed

subsection \<open>The minutes of the birth time\<close>

text \<open>
  C3 at 12:30 in the example: the \<open>Date\<close> has 12 hours and 30 minutes and the offset is
  3600 seconds; the hour given to \<open>swe_julday\<close> is 13, the hours plus the offset, and not
  13.5: the minutes are never read.
\<close>

theorem C3_minutes_dropped:
  "newDate exampleEnv ''1990-03-21T12:30:00''
     = Some \<lparr> getTime = 638022600000, getFullYear = 1990, getMonth = 2, getDate = 21,
              getHours = 12, getMinutes = 30 \<rparr>
   \<and> Julday 1990 3 21 13
       \<in> set (snd (generateAstralChart exampleEnv
                 (exampleRequest\<lparr>body := exampleBody\<lparr>birthTime := Some ''12:30''\<rparr>\<rparr>)))
   \<and> Julday 1990 3 21 (12 + 30 / 60 + 3600 / 3600)
       \<notin> set (snd (generateAstralChart exampleEnv
                 (exampleRequest\<lparr>body := exampleBody\<lparr>birthTime := Some ''12:30''\<rparr>\<rparr>)))
   \<and> julianHour \<lparr> getTime = 638022600000, getFullYear = 1990, getMonth = 2, getDate = 21,
                   getHours = 12, getMinutes = 30 \<rparr> 3600 = 13"
proof -
  let ?req = "exampleRequest\<lparr>body := exampleBody\<lparr>birthTime := Some ''12:30''\<rparr>\<rparr>"
  have a: "newDate exampleEnv ''1990-03-21T12:30:00''
     = Some \<lparr> getTime = 638022600000, getFullYear = 1990, getMonth = 2, getDate = 21,
              getHours = 12, getMinutes = 30 \<rparr>"
    by (simp add: exampleEnv_def utcDate_def)
  have b: "Julday 1990 3 21 13 \<in> set (snd (generateAstralChart exampleEnv ?req))"
    using example_calls_half_past by auto
  have c: "Julday 1990 3 21 (12 + 30 / 60 + 3600 / 3600)
             \<notin> set (snd (generateAstralChart exampleEnv ?req))"
  proof
    assume "Julday 1990 3 21 (12 + 30 / 60 + 3600 / 3600)
              \<in> set (snd (generateAstralChart exampleEnv ?req))"
    from julday_call [OF this] show False
      by (auto simp: exampleRequest_def exampleBody_def str_def exampleEnv_def utcDate_def)
  qed
  have d: "julianHour \<lparr> getTime = 638022600000, getFullYear = 1990, getMonth = 2, getDate = 21,
                   getHours = 12, getMinutes = 30 \<rparr> 3600 = 13"
    by (simp add: julianHour_def)
  from a b c d show ?thesis by blast
qed

subsection \<open>The prompt of a successful request\<close>




subsection \<open>The language of the answer\<close>

lemma finalAstroData_language:
  "finalAstroData (b\<lparr>language := x\<rparr>) tzid off lat lng sol luna ascmc ls
     = finalAstroData b tzid off lat lng sol luna ascmc ls"
  by (simp add: finalAstroData_def)

lemma languageDirective_not_es:
  assumes "l \<noteq> ''es''"
  shows "languageDirective (Some l)
           = ''Responde enteramente en English. El formato final debe ser Markdown.''"
  using assms by (simp add: languageDirective_def)

lemma textPrompt_not_es:
  assumes "l \<noteq> ''es''"
  shows "textPrompt num fa (Some l) = textPrompt num fa (Some ''en'')"
  using assms by (simp add: textPrompt_def languageDirective_def)

lemma astroStage_language:
  assumes "l \<noteq> ''es''"
  shows "astroStage env (b\<lparr>language := Some l\<rparr>) lat lng tzid off d
           = astroStage env (b\<lparr>language := Some ''en''\<rparr>) lat lng tzid off d"
  by (simp add: astroStage_def Let_def finalAstroData_language textPrompt_not_es [OF assms]
      split: sum.splits prod.splits option.splits)

lemma timezoneStage_language:
  assumes "l \<noteq> ''es''"
  shows "timezoneStage env (b\<lparr>language := Some l\<rparr>) lat lng
           = timezoneStage env (b\<lparr>language := Some ''en''\<rparr>) lat lng"
  by (simp add: timezoneStage_def Let_def astroStage_language [OF assms]
      split: option.splits fetched.splits prod.splits)

lemma geocodeStage_language:
  assumes "l \<noteq> ''es''"
  shows "geocodeStage env (b\<lparr>language := Some l\<rparr>) = geocodeStage env (b\<lparr>language := Some ''en''\<rparr>)"
  by (simp add: geocodeStage_def Let_def timezoneStage_language [OF assms]
      split: fetched.splits list.splits prod.splits)

lemma incomplete_language:
  assumes "l \<noteq> []"
  shows "incomplete (b\<lparr>language := Some l\<rparr>) \<longleftrightarrow> incomplete (b\<lparr>language := Some ''en''\<rparr>)"
  using assms by (simp add: incomplete_def falsy_def)

lemma handler_language:
  assumes "l \<noteq> []" and "l \<noteq> ''es''"
  shows "generateAstralChart env \<lparr> req_method = m, body = b\<lparr>language := Some l\<rparr> \<rparr>
           = generateAstralChart env \<lparr> req_method = m, body = b\<lparr>language := Some ''en''\<rparr> \<rparr>"
  by (simp add: generateAstralChart_def pipeline_def incomplete_language [OF assms(1)]
      geocodeStage_language [OF assms(2)])

lemma messages_differ: "invalidDateMessage \<noteq> incompleteMessage"
  by (simp add: invalidDateMessage_def incompleteMessage_def)

lemma geocodeStage_not_incomplete:
  assumes "geocodeStage env b = (cs, Inr r)"
  shows "r \<noteq> \<lparr> status = 400, sent = Message incompleteMessage \<rparr>"
  using assms messages_differ
  by (auto simp: geocodeStage_def timezoneStage_def Let_def
      split: fetched.splits list.splits prod.splits option.splits if_splits
      dest!: astroStage_success)

lemma validation_message:
  assumes "fst (generateAstralChart env req) = \<lparr> status = 400, sent = Message incompleteMessage \<rparr>"
  shows "incomplete (body req)"
  using assms
  by (auto simp: generateAstralChart_def pipeline_def
      split: if_splits prod.splits sum.splits dest: geocodeStage_not_incomplete)

lemma prompt_language:
  assumes "GenerateContent q \<in> set (snd (generateAstralChart env req))"
  shows "\<exists>pre. q = pre @ languageDirective (language (body req))"
proof -
  from handler_calls [OF assms] obtain fa where
    "q = textPrompt (numberToString env) fa (language (body req))"
    by (auto dest!: astroStage_calls)
  then show ?thesis
    by (simp add: textPrompt_def)
qed

text \<open>
  C10. A language that is neither empty nor the string \<open>es\<close> passes the validation whenever
  the other four fields are present; the handler then answers and calls exactly as it does
  for the language \<open>en\<close>, never with the 400 of the validation, and every prompt it hands
  to the text model ends with the directive to respond in English.
\<close>

theorem C10_language_not_validated:
  assumes "l \<noteq> []" and "l \<noteq> ''es''"
    and "\<not> falsy (birthDate b)" and "\<not> falsy (birthTime b)"
    and "\<not> falsy (birthPlace b)" and "\<not> falsy (userSex b)"
  shows "\<not> incomplete (b\<lparr>language := Some l\<rparr>)
       \<and> generateAstralChart env \<lparr> req_method = m, body = b\<lparr>language := Some l\<rparr> \<rparr>
           = generateAstralChart env \<lparr> req_method = m, body = b\<lparr>language := Some ''en''\<rparr> \<rparr>
       \<and> fst (generateAstralChart env \<lparr> req_method = m, body = b\<lparr>language := Some l\<rparr> \<rparr>)
           \<noteq> \<lparr> status = 400, sent = Message incompleteMessage \<rparr>
       \<and> (\<forall>q. GenerateContent q
                 \<in> set (snd (generateAstralChart env
                          \<lparr> req_method = m, body = b\<lparr>language := Some l\<rparr> \<rparr>))
              \<longrightarrow> (\<exists>pre. q = pre @ ''Responde enteramente en English. El formato final debe ser Markdown.''))"
proof -
  let ?req = "\<lparr> req_method = m, body = b\<lparr>language := Some l\<rparr> \<rparr>"
  have v: "\<not> incomplete (b\<lparr>language := Some l\<rparr>)"
    using assms by (simp add: incomplete_def falsy_def)
  have e: "generateAstralChart env ?req
             = generateAstralChart env \<lparr> req_method = m, body = b\<lparr>language := Some ''en''\<rparr> \<rparr>"
    using assms(1,2) by (rule handler_language)
  have n: "fst (generateAstralChart env ?req) \<noteq> \<lparr> status = 400, sent = Message incompleteMessage \<rparr>"
    using validation_message [of env ?req] v by auto
  have p: "\<exists>pre. q = pre @ ''Responde enteramente en English. El formato final debe ser Markdown.''"
    if "GenerateContent q \<in> set (snd (generateAstralChart env ?req))" for q
    using prompt_language [OF that] languageDirective_not_es [OF assms(2)] by simp
  from v e n p show ?thesis by blast
qed

theorem C10_french_witness:
  "''fr'' \<noteq> [] \<and> ''fr'' \<noteq> ''es''
   \<and> \<not> falsy (birthDate exampleBody) \<and> \<not> falsy (birthTime exampleBody)
   \<and> \<not> falsy (birthPlace exampleBody) \<and> \<not> falsy (userSex exampleBody)
   \<and> \<not> incomplete (exampleBody\<lparr>language := Some ''fr''\<rparr>)
   \<and> generateAstralChart exampleEnv \<lparr> req_method = ''POST'', body = exampleBody\<lparr>language := Some ''fr''\<rparr> \<rparr>
       = generateAstralChart exampleEnv \<lparr> req_method = ''POST'', body = exampleBody\<lparr>language := Some ''en''\<rparr> \<rparr>
   \<and> status (fst (generateAstralChart exampleEnv
         \<lparr> req_method = ''POST'', body = exampleBody\<lparr>language := Some ''fr''\<rparr> \<rparr>)) = 200
   \<and> (\<exists>cs pre. snd (generateAstralChart exampleEnv
                    \<lparr> req_method = ''POST'', body = exampleBody\<lparr>language := Some ''fr''\<rparr> \<rparr>)
         = cs @ [GenerateContent
                   (pre @ ''Responde enteramente en English. El formato final debe ser Markdown.'')])"
proof -
  let ?req = "\<lparr> req_method = ''POST'', body = exampleBody\<lparr>language := Some ''fr''\<rparr> \<rparr>"
  have h: "''fr'' \<noteq> []" "''fr'' \<noteq> ''es''"
    "\<not> falsy (birthDate exampleBody)" "\<not> falsy (birthTime exampleBody)"
    "\<not> falsy (birthPlace exampleBody)" "\<not> falsy (userSex exampleBody)"
    by (simp_all add: exampleBody_def falsy_def)
  note t = C10_language_not_validated [OF h, of exampleEnv "''POST''"]
  have s: "fst (generateAstralChart exampleEnv ?req)
             = \<lparr> status = 200, sent = ChartText ''# Carta Astral'' \<rparr>"
    by (rule example_success_language) simp
  then have "sent (fst (generateAstralChart exampleEnv ?req)) = ChartText ''# Carta Astral''"
    by simp
  from handler_success [OF this] obtain cs q where
    c: "snd (generateAstralChart exampleEnv ?req) = cs @ [GenerateContent q]"
    by blast
  then have "GenerateContent q \<in> set (snd (generateAstralChart exampleEnv ?req))"
    by simp
  with t obtain pre where
    "q = pre @ ''Responde enteramente en English. El formato final debe ser Markdown.''"
    by blast
  with c have "\<exists>cs pre. snd (generateAstralChart exampleEnv ?req)
         = cs @ [GenerateContent
                   (pre @ ''Responde enteramente en English. El formato final debe ser Markdown.'')]"
    by blast
  with t h s show ?thesis by simp
qed

end
